theory Spec2Isabelle
  imports Complex_Main "HOL-Library.Sublist" "HOL-Library.Monad_Syntax"
begin

section \<open>Numbers\<close>

text \<open>
  A JavaScript Number is modelled as an optional value: \<open>None\<close> is \<open>NaN\<close>. The quantities
  that are integral in the program (time values, years, hours, minutes, seconds,
  milliseconds) are \<open>int option\<close>; the angles of the clock hands are \<open>real option\<close>.
  Arithmetic on the non-\<open>NaN\<close> values is exact: the rounding of IEEE doubles is not part of
  the model. Infinities do not arise, since the program never divides by zero.
\<close>

abbreviation NaN :: "'a option" where
  "NaN \<equiv> None"

abbreviation Num :: "'a \<Rightarrow> 'a option" where
  "Num \<equiv> Some"

text \<open>A binary arithmetic operator: \<open>NaN\<close> if either operand is \<open>NaN\<close>.\<close>

definition arith2 :: "('a \<Rightarrow> 'b \<Rightarrow> 'c) \<Rightarrow> 'a option \<Rightarrow> 'b option \<Rightarrow> 'c option" where
  "arith2 f a b = (case (a, b) of (Some x, Some y) \<Rightarrow> Num (f x y) | _ \<Rightarrow> NaN)"

text \<open>A comparison (\<open><\<close>, \<open>>\<close>, \<open>==\<close>): false if either operand is \<open>NaN\<close>.\<close>

definition compare2 :: "('a \<Rightarrow> 'b \<Rightarrow> bool) \<Rightarrow> 'a option \<Rightarrow> 'b option \<Rightarrow> bool" where
  "compare2 r a b = (case (a, b) of (Some x, Some y) \<Rightarrow> r x y | _ \<Rightarrow> False)"

text \<open>\<open>a !== b\<close> on Numbers is the negation of equality, so it is true when an operand is \<open>NaN\<close>.\<close>

definition strict_ne :: "'a option \<Rightarrow> 'a option \<Rightarrow> bool" where
  "strict_ne a b = (\<not> compare2 (=) a b)"

text \<open>
  \<open>a % b\<close>: the remainder of the division truncated towards zero, with the sign of the
  dividend; \<open>NaN\<close> when the divisor is zero.
\<close>

definition rem :: "int option \<Rightarrow> int option \<Rightarrow> int option" where
  "rem a b =
     (case (a, b) of
        (Some x, Some y) \<Rightarrow> if y = 0 then NaN else Num (sgn x * (\<bar>x\<bar> mod \<bar>y\<bar>))
      | _ \<Rightarrow> NaN)"

section \<open>The Date object\<close>

text \<open>
  A Date holds a time value: the milliseconds since 1970-01-01T00:00:00Z, or \<open>NaN\<close> for the
  invalid date. The accessors follow ECMA-262, section "Date Objects": every accessor of
  the invalid date is \<open>NaN\<close>.
\<close>

datatype date = Date (getTime: "int option")

definition msPerDay :: int where "msPerDay = 86400000"
definition msPerHour :: int where "msPerHour = 3600000"
definition msPerMinute :: int where "msPerMinute = 60000"

definition HourFromTime :: "int \<Rightarrow> int" where
  "HourFromTime t = (t div msPerHour) mod 24"

definition MinFromTime :: "int \<Rightarrow> int" where
  "MinFromTime t = (t div msPerMinute) mod 60"

definition DayFromYear :: "int \<Rightarrow> int" where
  "DayFromYear y =
     365 * (y - 1970) + (y - 1969) div 4 - (y - 1901) div 100 + (y - 1601) div 400"

definition TimeFromYear :: "int \<Rightarrow> int" where
  "TimeFromYear y = msPerDay * DayFromYear y"

text \<open>
  \<open>YearFromTime t\<close> is the largest year \<open>y\<close> with \<open>TimeFromYear y \<le> t\<close>. It is computed
  from an estimate, first down to a year that starts at or before \<open>t\<close>, then up to the last
  such year.
\<close>

lemma div_succ_bounds:
  fixes a k :: int
  assumes "0 < k"
  shows "a div k \<le> (a + 1) div k" and "(a + 1) div k \<le> a div k + 1"
proof -
  show "a div k \<le> (a + 1) div k"
    using assms by (intro zdiv_mono1) simp_all
  have "(a + 1) div k \<le> (a + k) div k"
    using assms by (intro zdiv_mono1) simp_all
  also have "\<dots> = a div k + 1"
    using assms by simp
  finally show "(a + 1) div k \<le> a div k + 1" .
qed

lemma DayFromYear_step: "DayFromYear y + 364 \<le> DayFromYear (y + 1)"
proof -
  have a: "(y - 1969) div 4 \<le> (y + 1 - 1969) div 4"
    using div_succ_bounds(1) [of 4 "y - 1969"] by (simp add: algebra_simps)
  have b: "(y + 1 - 1901) div 100 \<le> (y - 1901) div 100 + 1"
    using div_succ_bounds(2) [of 100 "y - 1901"] by (simp add: algebra_simps)
  have c: "(y - 1601) div 400 \<le> (y + 1 - 1601) div 400"
    using div_succ_bounds(1) [of 400 "y - 1601"] by (simp add: algebra_simps)
  have lin: "365 * (y - 1970) + p - q + r + 364 \<le> 365 * (y + 1 - 1970) + p' - q' + r'"
    if "p \<le> p'" "q' \<le> q + 1" "r \<le> r'" for p q r p' q' r' :: int
    using that by arith
  show ?thesis
    unfolding DayFromYear_def by (rule lin [OF a b c])
qed

lemma TimeFromYear_less: "TimeFromYear y < TimeFromYear (y + 1)"
  using DayFromYear_step [of y] by (simp add: TimeFromYear_def msPerDay_def)

function year_down :: "int \<Rightarrow> int \<Rightarrow> int" where
  "year_down t y = (if t < TimeFromYear y then year_down t (y - 1) else y)"
  by pat_completeness auto
termination
proof (relation "measure (\<lambda>(t, y). nat (TimeFromYear y - t))")
  show "wf (measure (\<lambda>(t, y). nat (TimeFromYear y - t)))" by simp
next
  fix t y :: int
  assume "t < TimeFromYear y"
  moreover have "TimeFromYear (y - 1) < TimeFromYear y"
    using TimeFromYear_less [of "y - 1"] by simp
  ultimately show "((t, y - 1), (t, y)) \<in> measure (\<lambda>(t, y). nat (TimeFromYear y - t))"
    by simp
qed

function year_up :: "int \<Rightarrow> int \<Rightarrow> int" where
  "year_up t y = (if TimeFromYear (y + 1) \<le> t then year_up t (y + 1) else y)"
  by pat_completeness auto
termination
proof (relation "measure (\<lambda>(t, y). nat (t + 1 - TimeFromYear (y + 1)))")
  show "wf (measure (\<lambda>(t, y). nat (t + 1 - TimeFromYear (y + 1))))" by simp
next
  fix t y :: int
  assume "TimeFromYear (y + 1) \<le> t"
  moreover have "TimeFromYear (y + 1) < TimeFromYear (y + 1 + 1)"
    by (rule TimeFromYear_less)
  ultimately show "((t, y + 1), (t, y)) \<in> measure (\<lambda>(t, y). nat (t + 1 - TimeFromYear (y + 1)))"
    by simp
qed

declare year_down.simps [simp del] year_up.simps [simp del]

definition YearFromTime :: "int \<Rightarrow> int" where
  "YearFromTime t = year_up t (year_down t (1970 + t div (365 * msPerDay)))"

text \<open>
  What the host contributes. \<open>Date_parse\<close> is \<open>Date.parse\<close>: the time value a string
  denotes, \<open>NaN\<close> for a string it does not recognise; which strings it recognises beyond the
  date-time string format of ECMA-262 is implementation-defined. \<open>LocalTZA\<close> is the offset
  of the host's time zone from UTC, in milliseconds, at a given UTC time.
\<close>

record platform =
  Date_parse :: "string \<Rightarrow> int option"
  LocalTZA :: "int \<Rightarrow> int"

definition LocalTime :: "platform \<Rightarrow> int \<Rightarrow> int" where
  "LocalTime P t = t + LocalTZA P t"

definition getFullYear :: "platform \<Rightarrow> date \<Rightarrow> int option" where
  "getFullYear P d = map_option (\<lambda>t. YearFromTime (LocalTime P t)) (getTime d)"

definition getUTCHours :: "date \<Rightarrow> int option" where
  "getUTCHours d = map_option HourFromTime (getTime d)"

definition getUTCMinutes :: "date \<Rightarrow> int option" where
  "getUTCMinutes d = map_option MinFromTime (getTime d)"

text \<open>
  \<open>TimeClip\<close> bounds a time value; \<open>new Date(value)\<close> for a string \<open>value\<close> parses it and
  clips the result. ECMA-262 asserts that this step does not complete abruptly: the
  constructor does not throw on a string.
\<close>

definition TimeClip :: "int option \<Rightarrow> int option" where
  "TimeClip tv =
     (case tv of None \<Rightarrow> NaN | Some t \<Rightarrow> if \<bar>t\<bar> > 8640000000000000 then NaN else Num t)"

definition new_Date :: "platform \<Rightarrow> string \<Rightarrow> date" where
  "new_Date P v = Date (TimeClip (Date_parse P v))"

section \<open>The tasks\<close>

definition parseDataFromRfc2822 :: "platform \<Rightarrow> string \<Rightarrow> date" where
  "parseDataFromRfc2822 P v = new_Date P v"

definition parseDataFromIso8601 :: "platform \<Rightarrow> string \<Rightarrow> date" where
  "parseDataFromIso8601 P v = new_Date P v"

definition isLeapYear :: "platform \<Rightarrow> date \<Rightarrow> bool" where
  "isLeapYear P d =
     (let year = getFullYear P d
      in compare2 (=) (rem year (Num 4)) (Num 0)
         \<and> (strict_ne (rem year (Num 100)) (Num 0) \<or> compare2 (=) (rem year (Num 400)) (Num 0)))"

text \<open>
  The decimal digits of a natural number, and \<open>ToString\<close> of a Number: the form
  JavaScript prints for an integral Number below \<open>10\<^sup>2\<^sup>1\<close> in absolute value, which covers
  every difference of two clipped time values.
\<close>

fun digits :: "nat \<Rightarrow> string" where
  "digits n =
     (if n < 10 then [''0123456789'' ! n]
      else digits (n div 10) @ [''0123456789'' ! (n mod 10)])"

declare digits.simps [simp del]

definition Number_toString :: "int option \<Rightarrow> string" where
  "Number_toString a =
     (case a of
        None \<Rightarrow> ''NaN''
      | Some n \<Rightarrow> if n < 0 then ''-'' @ digits (nat (- n)) else digits (nat n))"

text \<open>\<open>ToString\<close> of a Boolean, and \<open>ToBoolean\<close> of a String: only the empty string is false.\<close>

definition Boolean_toString :: "bool \<Rightarrow> string" where
  "Boolean_toString b = (if b then ''true'' else ''false'')"

definition String_toBoolean :: "string \<Rightarrow> bool" where
  "String_toBoolean s = (s \<noteq> [])"

definition Math_abs :: "'a::abs option \<Rightarrow> 'a option" where
  "Math_abs a = map_option abs a"

text \<open>
  \<open>Math.floor(a / b)\<close> for integral \<open>a\<close> and a non-zero integral constant \<open>b\<close>: the floor
  of the exact quotient, which is the integer quotient \<open>a div b\<close>.
\<close>

definition Math_floor_div :: "int option \<Rightarrow> int option \<Rightarrow> int option" where
  "Math_floor_div a b = arith2 (div) a b"

text \<open>
  In the statement \<open>var result = "" + (hours<10) ? "0"+hours : hours\<close> the operator \<open>+\<close>
  binds tighter than \<open>?:\<close>, so the condition is the string \<open>"" + (hours<10)\<close>. The other
  two conditionals are the right operand of \<open>+=\<close>, which binds looser than \<open>?:\<close>. A Number
  that is appended to a string is converted by \<open>ToString\<close>.
\<close>

definition timeSpanToString :: "date \<Rightarrow> date \<Rightarrow> string" where
  "timeSpanToString startDate endDate =
     (let diff = Math_abs (arith2 (-) (getTime startDate) (getTime endDate));
          hourInMS = Num (60 * 60 * 1000);
          minuteInMS = Num (60 * 1000);
          secondInMS = Num 1000;
          hours = Math_floor_div diff hourInMS;
          diff = arith2 (-) diff (arith2 (*) hours hourInMS);
          minutes = Math_floor_div diff minuteInMS;
          diff = arith2 (-) diff (arith2 (*) minutes minuteInMS);
          seconds = Math_floor_div diff secondInMS;
          mSeconds = arith2 (-) diff (arith2 (*) seconds secondInMS);
          result = (if String_toBoolean ('''' @ Boolean_toString (compare2 (<) hours (Num 10)))
                    then ''0'' @ Number_toString hours else Number_toString hours);
          result = result @ '':'';
          result = result @ (if compare2 (<) minutes (Num 10)
                             then ''0'' @ Number_toString minutes else Number_toString minutes);
          result = result @ '':'';
          result = result @ (if compare2 (<) seconds (Num 10)
                             then ''0'' @ Number_toString seconds else Number_toString seconds);
          result = result @ ''.'';
          result = (if compare2 (<) mSeconds (Num 100) then result @ ''0'' else result);
          result = (if compare2 (<) mSeconds (Num 10) then result @ ''0'' else result);
          result = result @ Number_toString mSeconds
      in result)"

definition angleBetweenClockHands :: "date \<Rightarrow> real option" where
  "angleBetweenClockHands d =
     (let radInHour = Num (2 * pi / 12);
          radInMinute = Num (2 * pi / 60);
          hours = map_option real_of_int (getUTCHours d);
          minutes = map_option real_of_int (getUTCMinutes d);
          hours = (if compare2 (>) hours (Num 12) then arith2 (-) hours (Num 12) else hours);
          hoursAngle = arith2 (+) (arith2 (*) hours radInHour)
                                  (arith2 (/) (arith2 (*) radInHour minutes) (Num 60));
          minutesAngle = arith2 (*) minutes radInMinute;
          result = Math_abs (arith2 (-) hoursAngle minutesAngle);
          result = (if compare2 (>) result (Num pi) then arith2 (-) result (Num pi) else result)
      in result)"

text \<open>
  The algorithm as the specification words it, for the UTC hour and minute of a valid
  date: the hour hand at \<open>(hour mod 12) * (2\<pi>/12) + minute * (2\<pi>/12)/60\<close>, the minute hand
  at \<open>minute * (2\<pi>/60)\<close>, the raw angle their absolute difference, and \<open>2\<pi> - raw\<close> when the
  raw angle exceeds \<open>\<pi>\<close>.
\<close>

definition spec_angleBetweenClockHands :: "int \<Rightarrow> int \<Rightarrow> real" where
  "spec_angleBetweenClockHands hour minute =
     (let hourHand = real_of_int (hour mod 12) * (2 * pi / 12)
                       + real_of_int minute * (2 * pi / 12) / 60;
          minuteHand = real_of_int minute * (2 * pi / 60);
          raw = \<bar>hourHand - minuteHand\<bar>
      in if raw > pi then 2 * pi - raw else raw)"

section \<open>The date-time string format\<close>

text \<open>
  What ECMA-262 requires of \<open>Date.parse\<close>: the time value of a string in the date-time
  string format \<open>YYYY-MM-DDTHH:mm:ss.sssZ\<close>, where \<open>Z\<close> is the letter \<open>Z\<close> or an offset
  \<open>+HH:mm\<close> or \<open>-HH:mm\<close>. The model covers the strings with a full date, a time to the
  second or to the millisecond and an offset; on every other string it is undefined, and
  says nothing about the host. The fields are the wall-clock time the string names at its
  offset; the time value is the wall-clock time less the offset.
\<close>

definition digit_value :: "char \<Rightarrow> int option" where
  "digit_value c =
     (let n = (of_char c :: nat) in if 48 \<le> n \<and> n \<le> 57 then Some (int n - 48) else None)"

fun decimal_from :: "int \<Rightarrow> string \<Rightarrow> int option" where
  "decimal_from acc [] = Some acc"
| "decimal_from acc (c # cs) =
     (case digit_value c of None \<Rightarrow> None | Some v \<Rightarrow> decimal_from (10 * acc + v) cs)"

definition decimal :: "nat \<Rightarrow> string \<Rightarrow> int option" where
  "decimal n cs = (if length cs = n then decimal_from 0 cs else None)"

definition InLeapYear :: "int \<Rightarrow> bool" where
  "InLeapYear y \<longleftrightarrow> y mod 4 = 0 \<and> (y mod 100 \<noteq> 0 \<or> y mod 400 = 0)"

definition DaysInMonth :: "int \<Rightarrow> int \<Rightarrow> int" where
  "DaysInMonth y m =
     [31, if InLeapYear y then 29 else 28, 31, 30, 31, 30, 31, 31, 30, 31, 30, 31] ! nat (m - 1)"

definition DaysBeforeMonth :: "int \<Rightarrow> int \<Rightarrow> int" where
  "DaysBeforeMonth y m =
     [0, 31, 59, 90, 120, 151, 181, 212, 243, 273, 304, 334] ! nat (m - 1)
       + (if 2 < m \<and> InLeapYear y then 1 else 0)"

record iso_fields =
  iso_year :: int
  iso_month :: int
  iso_day :: int
  iso_hour :: int
  iso_minute :: int
  iso_second :: int
  iso_millisecond :: int
  iso_offset :: int

definition utc_offset :: "string \<Rightarrow> int option" where
  "utc_offset z =
     (if z = ''Z'' then Some 0
      else if length z = 6 \<and> (z ! 0 = CHR ''+'' \<or> z ! 0 = CHR ''-'') \<and> z ! 3 = CHR '':'' then
        do {
          h \<leftarrow> decimal 2 (take 2 (drop 1 z));
          m \<leftarrow> decimal 2 (drop 4 z);
          if h \<le> 23 \<and> m \<le> 59
          then Some ((if z ! 0 = CHR ''-'' then - 1 else 1) * (h * 60 + m))
          else None
        }
      else None)"

definition date_time_fields :: "string \<Rightarrow> iso_fields option" where
  "date_time_fields s =
     (if 20 \<le> length s \<and> s ! 4 = CHR ''-'' \<and> s ! 7 = CHR ''-'' \<and> s ! 10 = CHR ''T''
           \<and> s ! 13 = CHR '':'' \<and> s ! 16 = CHR '':'' then
        do {
          y \<leftarrow> decimal 4 (take 4 s);
          mo \<leftarrow> decimal 2 (take 2 (drop 5 s));
          d \<leftarrow> decimal 2 (take 2 (drop 8 s));
          h \<leftarrow> decimal 2 (take 2 (drop 11 s));
          mi \<leftarrow> decimal 2 (take 2 (drop 14 s));
          sec \<leftarrow> decimal 2 (take 2 (drop 17 s));
          ms \<leftarrow> (if s ! 19 = CHR ''.'' then decimal 3 (take 3 (drop 20 s)) else Some 0);
          off \<leftarrow> utc_offset (if s ! 19 = CHR ''.'' then drop 23 s else drop 19 s);
          if 1 \<le> mo \<and> mo \<le> 12 \<and> 1 \<le> d \<and> d \<le> DaysInMonth y mo
               \<and> h \<le> 23 \<and> mi \<le> 59 \<and> sec \<le> 59
          then Some \<lparr>iso_year = y, iso_month = mo, iso_day = d, iso_hour = h, iso_minute = mi,
                      iso_second = sec, iso_millisecond = ms, iso_offset = off\<rparr>
          else None
        }
      else None)"

definition wall_clock :: "iso_fields \<Rightarrow> int" where
  "wall_clock f =
     (DayFromYear (iso_year f) + DaysBeforeMonth (iso_year f) (iso_month f) + iso_day f - 1)
        * msPerDay
      + iso_hour f * msPerHour + iso_minute f * msPerMinute + iso_second f * 1000
      + iso_millisecond f"

definition absolute_time :: "iso_fields \<Rightarrow> int" where
  "absolute_time f = wall_clock f - iso_offset f * msPerMinute"

definition date_time_value :: "string \<Rightarrow> int option" where
  "date_time_value s = map_option absolute_time (date_time_fields s)"

section \<open>Hosts\<close>

text \<open>A host in the UTC time zone, with a parser that recognises nothing.\<close>

definition utc_host :: platform where
  "utc_host = \<lparr>Date_parse = (\<lambda>v. NaN), LocalTZA = (\<lambda>t. 0)\<rparr>"

text \<open>
  A host conforms when its parser gives every string that the model of the date-time
  string format covers the time value of the format; \<open>standard_host\<close> is a host in the UTC
  time zone whose parser recognises these strings and no others.
\<close>

definition conforms :: "platform \<Rightarrow> bool" where
  "conforms P \<longleftrightarrow> (\<forall>s t. date_time_value s = Some t \<longrightarrow> Date_parse P s = Num t)"

definition standard_host :: platform where
  "standard_host = \<lparr>Date_parse = date_time_value, LocalTZA = (\<lambda>t. 0)\<rparr>"

section \<open>The year of a time value\<close>

lemma year_down_le: "TimeFromYear (year_down t y) \<le> t"
  by (induction t y rule: year_down.induct) (subst year_down.simps, simp)

lemma year_up_bounds:
  "TimeFromYear y \<le> t \<Longrightarrow>
     TimeFromYear (year_up t y) \<le> t \<and> t < TimeFromYear (year_up t y + 1)"
  by (induction t y rule: year_up.induct) (subst (1 2) year_up.simps, simp)

lemma YearFromTime_bounds:
  "TimeFromYear (YearFromTime t) \<le> t \<and> t < TimeFromYear (YearFromTime t + 1)"
  unfolding YearFromTime_def by (rule year_up_bounds) (rule year_down_le)

text \<open>So \<open>YearFromTime t\<close> is the largest year that starts at or before \<open>t\<close>.\<close>

lemma TimeFromYear_mono: "y \<le> z \<Longrightarrow> TimeFromYear y \<le> TimeFromYear z"
proof (induction z rule: int_ge_induct)
  case base
  show ?case by simp
next
  case (step i)
  then show ?case
    using TimeFromYear_less [of i] by simp
qed

lemma YearFromTime_greatest: "TimeFromYear y \<le> t \<Longrightarrow> y \<le> YearFromTime t"
proof (rule ccontr)
  assume le: "TimeFromYear y \<le> t" and "\<not> y \<le> YearFromTime t"
  then have "YearFromTime t + 1 \<le> y" by simp
  then have "TimeFromYear (YearFromTime t + 1) \<le> TimeFromYear y"
    by (rule TimeFromYear_mono)
  with le YearFromTime_bounds [of t] show False by simp
qed

section \<open>Leap years\<close>

lemma rem_eq_0_iff: "y \<noteq> 0 \<Longrightarrow> compare2 (=) (rem (Num x) (Num y)) (Num 0) \<longleftrightarrow> x mod y = 0"
  by (auto simp: compare2_def rem_def sgn_if dvd_eq_mod_eq_0 [symmetric])

lemma isLeapYear_Num:
  "getFullYear P d = Num Y \<Longrightarrow>
     isLeapYear P d \<longleftrightarrow> Y mod 4 = 0 \<and> (Y mod 100 \<noteq> 0 \<or> Y mod 400 = 0)"
  by (simp add: isLeapYear_def strict_ne_def rem_eq_0_iff)

lemma isLeapYear_NaN: "getFullYear P d = NaN \<Longrightarrow> \<not> isLeapYear P d"
  by (simp add: isLeapYear_def compare2_def rem_def)

text \<open>
  C4. For a date whose year component is \<open>Y\<close>, \<open>isLeapYear\<close> is true exactly when \<open>Y\<close> is
  divisible by 4 and either not divisible by 100 or divisible by 400. In particular it is
  true for the years 2000 and 2012 and false for the years 1900, 2001 and 2015.
\<close>

theorem isLeapYear_spec:
  "(\<forall>d Y. getFullYear P d = Num Y \<longrightarrow>
      (isLeapYear P d \<longleftrightarrow> Y mod 4 = 0 \<and> (Y mod 100 \<noteq> 0 \<or> Y mod 400 = 0)))
   \<and> (\<forall>d. getFullYear P d = Num 2000 \<longrightarrow> isLeapYear P d)
   \<and> (\<forall>d. getFullYear P d = Num 2012 \<longrightarrow> isLeapYear P d)
   \<and> (\<forall>d. getFullYear P d = Num 1900 \<longrightarrow> \<not> isLeapYear P d)
   \<and> (\<forall>d. getFullYear P d = Num 2001 \<longrightarrow> \<not> isLeapYear P d)
   \<and> (\<forall>d. getFullYear P d = Num 2015 \<longrightarrow> \<not> isLeapYear P d)"
  by (simp add: isLeapYear_Num)

theorem isLeapYear_spec_witness:
  "getFullYear utc_host (Date (Num 949363200000)) = Num 2000
   \<and> isLeapYear utc_host (Date (Num 949363200000))
   \<and> getFullYear utc_host (Date (Num 1328054400000)) = Num 2012
   \<and> isLeapYear utc_host (Date (Num 1328054400000))
   \<and> getFullYear utc_host (Date (Num (- 2206310400000))) = Num 1900
   \<and> \<not> isLeapYear utc_host (Date (Num (- 2206310400000)))
   \<and> getFullYear utc_host (Date (Num 980985600000)) = Num 2001
   \<and> \<not> isLeapYear utc_host (Date (Num 980985600000))
   \<and> getFullYear utc_host (Date (Num 1422748800000)) = Num 2015
   \<and> \<not> isLeapYear utc_host (Date (Num 1422748800000))"
proof -
  have y2000: "getFullYear utc_host (Date (Num 949363200000)) = Num 2000" by code_simp
  have y2012: "getFullYear utc_host (Date (Num 1328054400000)) = Num 2012" by code_simp
  have y1900: "getFullYear utc_host (Date (Num (- 2206310400000))) = Num 1900" by code_simp
  have y2001: "getFullYear utc_host (Date (Num 980985600000)) = Num 2001" by code_simp
  have y2015: "getFullYear utc_host (Date (Num 1422748800000)) = Num 2015" by code_simp
  show ?thesis
    using isLeapYear_spec [of utc_host] y2000 y2012 y1900 y2001 y2015 by blast
qed

text \<open>
  C9. \<open>isLeapYear\<close> reads only the year component: two dates with the same year component
  get the same answer, whatever their month, day and time of day.
\<close>

theorem isLeapYear_year_only:
  "getFullYear P d1 = getFullYear P d2 \<Longrightarrow> isLeapYear P d1 = isLeapYear P d2"
  by (simp add: isLeapYear_def)

theorem isLeapYear_year_only_witness:
  "getFullYear utc_host (Date (Num 1328054400000)) = getFullYear utc_host (Date (Num 1356998399999))
   \<and> getTime (Date (Num 1328054400000)) \<noteq> getTime (Date (Num 1356998399999))
   \<and> isLeapYear utc_host (Date (Num 1328054400000)) = isLeapYear utc_host (Date (Num 1356998399999))"
proof -
  have y: "getFullYear utc_host (Date (Num 1328054400000))
             = getFullYear utc_host (Date (Num 1356998399999))"
    by code_simp
  show ?thesis
    using y isLeapYear_year_only [OF y] by simp
qed

section \<open>The time span\<close>

lemma Math_floor_div_floor:
  "y \<noteq> 0 \<Longrightarrow> Math_floor_div (Num x) (Num y) = Num \<lfloor>real_of_int x / real_of_int y\<rfloor>"
  by (simp add: Math_floor_div_def arith2_def floor_divide_of_int_eq)

lemma abs_diff_swap:
  fixes a b :: "int option"
  shows "Math_abs (arith2 (-) a b) = Math_abs (arith2 (-) b a)"
  by (cases a; cases b) (simp_all add: Math_abs_def arith2_def)

text \<open>
  C5. \<open>timeSpanToString\<close> is symmetric: swapping the start and the end date gives the same
  string.
\<close>

theorem timeSpanToString_symmetric:
  "timeSpanToString startDate endDate = timeSpanToString endDate startDate"
  unfolding timeSpanToString_def
  by (simp only: abs_diff_swap [of "getTime startDate" "getTime endDate"])

text \<open>
  The hours field is always the character \<open>0\<close> followed by the digits of the whole hours:
  the condition of the first conditional is a non-empty string, so the padding branch is
  taken whatever the number of hours.
\<close>

lemma hours_condition: "String_toBoolean ('''' @ Boolean_toString b)"
  by (simp add: String_toBoolean_def Boolean_toString_def)

lemma hours_digits:
  "Number_toString (Math_floor_div (Math_abs (arith2 (-) (Num a) (Num b))) (Num (60 * 60 * 1000)))
     = digits (nat (\<bar>a - b\<bar> div 3600000))"
proof -
  have "0 \<le> \<bar>a - b\<bar> div 3600000"
    by (simp add: pos_imp_zdiv_nonneg_iff)
  then show ?thesis
    by (simp add: Math_abs_def arith2_def Math_floor_div_def Number_toString_def)
qed

lemma prefix_if: "prefix p x \<Longrightarrow> prefix p y \<Longrightarrow> prefix p (if c then x else y)"
  by simp

lemma append_if: "(if c then x else y) @ z = (if c then x @ z else y @ z)"
  by simp

lemma prefix_append3: "prefix (a @ b @ c) (a @ b @ c @ r)"
  by simp

lemma timeSpanToString_hours_field:
  "prefix (''0'' @ digits (nat (\<bar>a - b\<bar> div 3600000)) @ '':'')
     (timeSpanToString (Date (Num a)) (Date (Num b)))"
  unfolding timeSpanToString_def Let_def date.sel
  apply (simp only: hours_condition if_True hours_digits append_if append_assoc)
  apply (intro prefix_if prefix_append3)
  done

text \<open>
  C2. The claim is that the hours field is the whole hours padded to at least two digits,
  so that a span of 30 hours starts with \<open>30:\<close>. The function puts a \<open>0\<close> before the
  hours whatever their value: a span of 30 hours is rendered as \<open>030:00:00.000\<close>.
\<close>

theorem timeSpanToString_30_hours:
  "timeSpanToString (Date (Num 0)) (Date (Num 108000000)) = ''030:00:00.000''
   \<and> take 3 (timeSpanToString (Date (Num 0)) (Date (Num 108000000))) \<noteq> ''30:''"
  by code_simp

section \<open>The clock hands\<close>

lemma angleBetweenClockHands_Num:
  assumes "getUTCHours d = Num h" and "getUTCMinutes d = Num m"
  shows "angleBetweenClockHands d =
    Num (let h' = (if h > 12 then h - 12 else h);
             r = \<bar>real_of_int h' * (2 * pi / 12) + 2 * pi / 12 * real_of_int m / 60
                    - real_of_int m * (2 * pi / 60)\<bar>
         in if r > pi then r - pi else r)"
  using assms
  by (simp add: angleBetweenClockHands_def Let_def arith2_def compare2_def Math_abs_def)

lemma angleBetweenClockHands_NaN: "getTime d = NaN \<Longrightarrow> angleBetweenClockHands d = NaN"
  by (simp add: angleBetweenClockHands_def Let_def arith2_def compare2_def Math_abs_def
      getUTCHours_def getUTCMinutes_def)

lemma hands_diff:
  "real_of_int h * (2 * pi / 12) + 2 * pi / 12 * real_of_int m / 60 - real_of_int m * (2 * pi / 60)
     = pi * (real_of_int (60 * h - 11 * m) / 360)"
  by (simp add: field_simps)

lemma reduced_angle_range:
  fixes h m :: int
  assumes "0 \<le> h" "h \<le> 12" "0 \<le> m" "m < 60"
  defines "r \<equiv> \<bar>pi * (real_of_int (60 * h - 11 * m) / 360)\<bar>"
  shows "0 \<le> (if r > pi then r - pi else r) \<and> (if r > pi then r - pi else r) \<le> pi"
proof -
  have "\<bar>60 * h - 11 * m\<bar> \<le> 720" using assms(1-4) by linarith
  then have "\<bar>real_of_int (60 * h - 11 * m)\<bar> \<le> 720"
    by (metis of_int_abs of_int_le_iff of_int_numeral)
  then have q: "\<bar>real_of_int (60 * h - 11 * m) / 360\<bar> \<le> 2" by simp
  have "r = pi * \<bar>real_of_int (60 * h - 11 * m) / 360\<bar>"
    unfolding r_def by (simp add: abs_mult)
  also have "\<dots> \<le> pi * 2"
    using q by (intro mult_left_mono) simp_all
  finally have "r \<le> 2 * pi" by simp
  moreover have "0 \<le> r" unfolding r_def by simp
  ultimately show ?thesis by auto
qed

lemma HourFromTime_range: "0 \<le> HourFromTime t \<and> HourFromTime t \<le> 23"
  by (simp add: HourFromTime_def)

lemma MinFromTime_range: "0 \<le> MinFromTime t \<and> MinFromTime t \<le> 59"
  by (simp add: MinFromTime_def)

lemma angleBetweenClockHands_bounds:
  assumes "getUTCHours d = Num h" and "getUTCMinutes d = Num m"
    and "0 \<le> h" and "h \<le> 23" and "0 \<le> m" and "m \<le> 59"
  shows "\<exists>a. angleBetweenClockHands d = Num a \<and> 0 \<le> a \<and> a \<le> pi"
proof -
  define h' where "h' = (if h > 12 then h - 12 else h)"
  define r where "r = \<bar>pi * (real_of_int (60 * h' - 11 * m) / 360)\<bar>"
  have h': "0 \<le> h'" "h' \<le> 12"
    using assms(3,4) by (auto simp: h'_def)
  have m: "m < 60" using assms(6) by simp
  have "angleBetweenClockHands d = Num (if r > pi then r - pi else r)"
    unfolding r_def h'_def
    by (simp only: angleBetweenClockHands_Num [OF assms(1,2)] Let_def hands_diff)
  moreover have "0 \<le> (if r > pi then r - pi else r) \<and> (if r > pi then r - pi else r) \<le> pi"
    unfolding r_def by (rule reduced_angle_range [OF h' assms(5) m])
  ultimately show ?thesis by blast
qed

text \<open>Every valid date has such an hour and minute, so the bounds hold for every valid date.\<close>

lemma angleBetweenClockHands_valid:
  "getTime d = Num t \<Longrightarrow> \<exists>a. angleBetweenClockHands d = Num a \<and> 0 \<le> a \<and> a \<le> pi"
  using angleBetweenClockHands_bounds [of d "HourFromTime t" "MinFromTime t"]
    HourFromTime_range [of t] MinFromTime_range [of t]
  by (simp add: getUTCHours_def getUTCMinutes_def)

text \<open>
  C3. For a date whose UTC hour is in 0..23 and whose UTC minute is in 0..59, the angle
  that \<open>angleBetweenClockHands\<close> returns is a number between 0 and \<open>\<pi>\<close>, both included.
\<close>

theorem angleBetweenClockHands_range:
  assumes "getUTCHours d = Num h" and "getUTCMinutes d = Num m"
    and "0 \<le> h" and "h \<le> 23" and "0 \<le> m" and "m \<le> 59"
  shows "\<exists>a. angleBetweenClockHands d = Num a \<and> 0 \<le> a \<and> a \<le> pi"
  using assms by (rule angleBetweenClockHands_bounds)

theorem angleBetweenClockHands_range_witness:
  "getUTCHours (Date (Num 1459890000000)) = Num 21
   \<and> getUTCMinutes (Date (Num 1459890000000)) = Num 0
   \<and> (\<exists>a. angleBetweenClockHands (Date (Num 1459890000000)) = Num a \<and> 0 \<le> a \<and> a \<le> pi)"
proof -
  have h: "getUTCHours (Date (Num 1459890000000)) = Num 21"
    by (simp add: getUTCHours_def HourFromTime_def msPerHour_def)
  have m: "getUTCMinutes (Date (Num 1459890000000)) = Num 0"
    by (simp add: getUTCMinutes_def MinFromTime_def msPerMinute_def)
  show ?thesis
    using h m angleBetweenClockHands_range [OF h m] by simp
qed

text \<open>
  C8. \<open>angleBetweenClockHands\<close> returns 0 for a date at 00:00 UTC, \<open>\<pi>/2\<close> at 03:00 UTC,
  \<open>\<pi>\<close> at 18:00 UTC and \<open>\<pi>/2\<close> at 21:00 UTC.
\<close>

theorem angleBetweenClockHands_examples:
  "(\<forall>d. getUTCHours d = Num 0 \<and> getUTCMinutes d = Num 0 \<longrightarrow> angleBetweenClockHands d = Num 0)
   \<and> (\<forall>d. getUTCHours d = Num 3 \<and> getUTCMinutes d = Num 0 \<longrightarrow> angleBetweenClockHands d = Num (pi / 2))
   \<and> (\<forall>d. getUTCHours d = Num 18 \<and> getUTCMinutes d = Num 0 \<longrightarrow> angleBetweenClockHands d = Num pi)
   \<and> (\<forall>d. getUTCHours d = Num 21 \<and> getUTCMinutes d = Num 0 \<longrightarrow> angleBetweenClockHands d = Num (pi / 2))"
  by (simp add: angleBetweenClockHands_Num)

theorem angleBetweenClockHands_examples_witness:
  "angleBetweenClockHands (Date (Num 1457136000000)) = Num 0
   \<and> angleBetweenClockHands (Date (Num 1459825200000)) = Num (pi / 2)
   \<and> angleBetweenClockHands (Date (Num 1459879200000)) = Num pi
   \<and> angleBetweenClockHands (Date (Num 1459890000000)) = Num (pi / 2)"
proof -
  have "getUTCHours (Date (Num 1457136000000)) = Num 0 \<and> getUTCMinutes (Date (Num 1457136000000)) = Num 0"
    and "getUTCHours (Date (Num 1459825200000)) = Num 3 \<and> getUTCMinutes (Date (Num 1459825200000)) = Num 0"
    and "getUTCHours (Date (Num 1459879200000)) = Num 18 \<and> getUTCMinutes (Date (Num 1459879200000)) = Num 0"
    and "getUTCHours (Date (Num 1459890000000)) = Num 21 \<and> getUTCMinutes (Date (Num 1459890000000)) = Num 0"
    by (simp_all add: getUTCHours_def getUTCMinutes_def HourFromTime_def MinFromTime_def
        msPerHour_def msPerMinute_def)
  then show ?thesis
    using angleBetweenClockHands_examples by blast
qed

text \<open>
  C1. The claim is that \<open>angleBetweenClockHands\<close> computes the algorithm of the
  specification. It does not: the function subtracts 12 only from hours above 12, where the
  specification takes the hour modulo 12, and it reduces a raw angle above \<open>\<pi>\<close> by \<open>\<pi>\<close>, where
  the specification takes \<open>2\<pi>\<close> minus the raw angle. At 08:00 UTC the function returns
  \<open>\<pi>/3\<close> and the specification's algorithm \<open>2\<pi>/3\<close>; at 12:00 UTC the function returns \<open>\<pi>\<close>
  and the specification's algorithm 0.
\<close>

theorem angleBetweenClockHands_not_spec:
  "getUTCHours (Date (Num 28800000)) = Num 8
   \<and> getUTCMinutes (Date (Num 28800000)) = Num 0
   \<and> angleBetweenClockHands (Date (Num 28800000)) = Num (pi / 3)
   \<and> spec_angleBetweenClockHands 8 0 = 2 * pi / 3
   \<and> angleBetweenClockHands (Date (Num 28800000)) \<noteq> Num (spec_angleBetweenClockHands 8 0)
   \<and> getUTCHours (Date (Num 43200000)) = Num 12
   \<and> getUTCMinutes (Date (Num 43200000)) = Num 0
   \<and> angleBetweenClockHands (Date (Num 43200000)) = Num pi
   \<and> spec_angleBetweenClockHands 12 0 = 0
   \<and> angleBetweenClockHands (Date (Num 43200000)) \<noteq> Num (spec_angleBetweenClockHands 12 0)"
proof -
  have h8: "getUTCHours (Date (Num 28800000)) = Num 8"
    and m8: "getUTCMinutes (Date (Num 28800000)) = Num 0"
    and h12: "getUTCHours (Date (Num 43200000)) = Num 12"
    and m12: "getUTCMinutes (Date (Num 43200000)) = Num 0"
    by (simp_all add: getUTCHours_def getUTCMinutes_def HourFromTime_def MinFromTime_def
        msPerHour_def msPerMinute_def)
  have a8: "angleBetweenClockHands (Date (Num 28800000)) = Num (pi / 3)"
    by (simp add: angleBetweenClockHands_Num [OF h8 m8])
  have a12: "angleBetweenClockHands (Date (Num 43200000)) = Num pi"
    by (simp add: angleBetweenClockHands_Num [OF h12 m12])
  have s8: "spec_angleBetweenClockHands 8 0 = 2 * pi / 3"
    by (simp add: spec_angleBetweenClockHands_def)
  have s12: "spec_angleBetweenClockHands 12 0 = 0"
    by (simp add: spec_angleBetweenClockHands_def)
  show ?thesis
    using h8 m8 h12 m12 a8 a12 s8 s12 by simp
qed

section \<open>The parsers\<close>

text \<open>
  C10. The two parsers are the same function: on every string they return the same date.
\<close>

theorem parsers_equal: "parseDataFromRfc2822 P v = parseDataFromIso8601 P v"
  by (simp add: parseDataFromRfc2822_def parseDataFromIso8601_def)

text \<open>
  C7. The parsers have no failure path: \<open>new Date(value)\<close> does not throw on a string, and
  the functions do nothing else, so each is a total function from strings to dates. On a
  string that the host's parser does not recognise both return the invalid date, whose
  time value is \<open>NaN\<close>.
\<close>

theorem parsers_invalid_date:
  "Date_parse P v = NaN \<Longrightarrow>
     parseDataFromRfc2822 P v = Date NaN \<and> parseDataFromIso8601 P v = Date NaN"
  by (simp add: parseDataFromRfc2822_def parseDataFromIso8601_def new_Date_def TimeClip_def)

theorem parsers_invalid_date_witness:
  "Date_parse standard_host ''yesterday'' = NaN
   \<and> parseDataFromRfc2822 standard_host ''yesterday'' = Date NaN
   \<and> parseDataFromIso8601 standard_host ''yesterday'' = Date NaN"
proof -
  have u: "Date_parse standard_host ''yesterday'' = NaN"
    by (simp add: standard_host_def date_time_value_def date_time_fields_def)
  show ?thesis
    using u parsers_invalid_date [OF u] by simp
qed

lemma date_time_value_offset:
  "date_time_fields s = Some f \<Longrightarrow>
     date_time_value s = Some (wall_clock f - iso_offset f * msPerMinute)"
  by (simp add: date_time_value_def absolute_time_def)

lemma conforms_standard_host: "conforms standard_host"
  by (simp add: conforms_def standard_host_def)

lemma conforms_new_Date:
  assumes "conforms P" and "date_time_value s = Some t"
  shows "new_Date P s = Date (TimeClip (Num t))"
  using assms by (simp add: conforms_def new_Date_def)

text \<open>
  C6. On a host whose \<open>Date.parse\<close> follows the date-time string format,
  \<open>parseDataFromIso8601\<close> gives \<open>2016-01-19T08:07:37Z\<close> and
  \<open>2016-01-19T16:07:37+08:00\<close> the same instant, 1453190857000 milliseconds after the
  epoch, and gives any two strings of the format that name the same absolute time the
  same date, whatever their offsets.
\<close>

theorem parseDataFromIso8601_offsets:
  "conforms P \<Longrightarrow>
     parseDataFromIso8601 P ''2016-01-19T08:07:37Z'' = Date (Num 1453190857000)
     \<and> parseDataFromIso8601 P ''2016-01-19T16:07:37+08:00'' = Date (Num 1453190857000)
     \<and> (\<forall>s1 s2 t. date_time_value s1 = Some t \<and> date_time_value s2 = Some t \<longrightarrow>
           parseDataFromIso8601 P s1 = parseDataFromIso8601 P s2)"
proof -
  assume P: "conforms P"
  have v1: "date_time_value ''2016-01-19T08:07:37Z'' = Some 1453190857000"
    by code_simp
  have v2: "date_time_value ''2016-01-19T16:07:37+08:00'' = Some 1453190857000"
    by code_simp
  have clip: "TimeClip (Num 1453190857000) = Num 1453190857000"
    by (simp add: TimeClip_def)
  show ?thesis
    unfolding parseDataFromIso8601_def
    using conforms_new_Date [OF P v1] conforms_new_Date [OF P v2] conforms_new_Date [OF P] clip
    by simp
qed

theorem parseDataFromIso8601_offsets_witness:
  "conforms standard_host
   \<and> parseDataFromIso8601 standard_host ''2016-01-19T08:07:37Z'' = Date (Num 1453190857000)
   \<and> parseDataFromIso8601 standard_host ''2016-01-19T16:07:37+08:00'' = Date (Num 1453190857000)
   \<and> date_time_value ''2016-01-19T16:07:37.250-08:30'' = Some 1453250257250
   \<and> date_time_value ''2016-01-20T00:37:37.250Z'' = Some 1453250257250
   \<and> parseDataFromIso8601 standard_host ''2016-01-19T16:07:37.250-08:30''
       = parseDataFromIso8601 standard_host ''2016-01-20T00:37:37.250Z''"
proof -
  have w1: "date_time_value ''2016-01-19T16:07:37.250-08:30'' = Some 1453250257250"
    by code_simp
  have w2: "date_time_value ''2016-01-20T00:37:37.250Z'' = Some 1453250257250"
    by code_simp
  show ?thesis
    using parseDataFromIso8601_offsets [OF conforms_standard_host] conforms_standard_host w1 w2
    by blast
qed

end
